theory Spec2Isabelle
  imports Main "HOL-Library.AList"
begin

section \<open>Strings\<close>

text \<open>
  Python strings are modelled as \<^typ>\<open>string\<close>; a \<^typ>\<open>char\<close> stands for a code point
  below 256 (ASCII and the Latin-1 supplement).  The character classes below are the ones
  of \<^verbatim>\<open>str.isspace\<close>, of the pattern escapes \<^verbatim>\<open>\s\<close> and \<^verbatim>\<open>\w\<close> of the module
  \<^verbatim>\<open>re\<close>, and the mapping of \<^verbatim>\<open>str.lower\<close>, on that range.
\<close>

abbreviation NL :: char where "NL \<equiv> CHR 0x0A"
abbreviation TAB :: char where "TAB \<equiv> CHR 0x09"
abbreviation DQ :: char where "DQ \<equiv> CHR 0x22"
abbreviation SQ :: char where "SQ \<equiv> CHR 0x27"

definition is_space :: "char \<Rightarrow> bool" where
  "is_space c =
     (let n = (of_char c :: nat)
      in (9 \<le> n \<and> n \<le> 13) \<or> (28 \<le> n \<and> n \<le> 32) \<or> n = 133 \<or> n = 160)"

definition is_word :: "char \<Rightarrow> bool" where
  "is_word c =
     (let n = (of_char c :: nat)
      in (48 \<le> n \<and> n \<le> 57) \<or> (65 \<le> n \<and> n \<le> 90) \<or> n = 95 \<or> (97 \<le> n \<and> n \<le> 122)
         \<or> n = 170 \<or> n = 178 \<or> n = 179 \<or> n = 181 \<or> n = 185 \<or> n = 186
         \<or> (188 \<le> n \<and> n \<le> 190) \<or> (192 \<le> n \<and> n \<le> 214)
         \<or> (216 \<le> n \<and> n \<le> 246) \<or> (248 \<le> n \<and> n \<le> 255))"

definition lower_char :: "char \<Rightarrow> char" where
  "lower_char c =
     (let n = (of_char c :: nat)
      in if (65 \<le> n \<and> n \<le> 90) \<or> (192 \<le> n \<and> n \<le> 214) \<or> (216 \<le> n \<and> n \<le> 222)
         then char_of (n + 32) else c)"

text \<open>\<^verbatim>\<open>s.lower()\<close>\<close>

definition lower :: "string \<Rightarrow> string" where
  "lower s = map lower_char s"

text \<open>\<^verbatim>\<open>s.strip()\<close>\<close>

definition strip :: "string \<Rightarrow> string" where
  "strip s = rev (dropWhile is_space (rev (dropWhile is_space s)))"

text \<open>\<^verbatim>\<open>s.replace(a, b)\<close> for one-character \<open>a\<close> and \<open>b\<close>\<close>

definition replace :: "char \<Rightarrow> char \<Rightarrow> string \<Rightarrow> string" where
  "replace a b s = map (\<lambda>c. if c = a then b else c) s"

text \<open>\<^verbatim>\<open>s.split(sep)\<close> for a one-character separator: never the empty list\<close>

fun split :: "char \<Rightarrow> string \<Rightarrow> string list" where
  "split sep [] = [[]]"
| "split sep (c # cs) =
     (if c = sep then [] # split sep cs
      else (case split sep cs of
              [] \<Rightarrow> [[c]]
            | w # ws \<Rightarrow> (c # w) # ws))"

text \<open>\<^verbatim>\<open>s.split(sep, 1)\<close> for a one-character separator: one or two pieces\<close>

definition split1 :: "char \<Rightarrow> string \<Rightarrow> string list" where
  "split1 sep s =
     (if sep \<in> set s
      then [takeWhile (\<lambda>c. c \<noteq> sep) s, tl (dropWhile (\<lambda>c. c \<noteq> sep) s)]
      else [s])"

text \<open>\<^verbatim>\<open>sep.join(xs)\<close> for a one-character separator\<close>

fun join :: "char \<Rightarrow> string list \<Rightarrow> string" where
  "join sep [] = []"
| "join sep [x] = x"
| "join sep (x # y # ys) = x @ sep # join sep (y # ys)"

text \<open>\<^verbatim>\<open>f'{x}'\<close> for a value that is a string or \<^verbatim>\<open>None\<close>\<close>

definition fmt :: "string option \<Rightarrow> string" where
  "fmt x = (case x of None \<Rightarrow> ''None'' | Some s \<Rightarrow> s)"

text \<open>The truth value of a string or \<^verbatim>\<open>None\<close>: false for \<^verbatim>\<open>None\<close> and for the empty string\<close>

definition truthy :: "string option \<Rightarrow> bool" where
  "truthy x = (case x of None \<Rightarrow> False | Some s \<Rightarrow> s \<noteq> [])"

text \<open>\<^verbatim>\<open>os.path.join(a, b)\<close> (posixpath)\<close>

definition path_join :: "string \<Rightarrow> string \<Rightarrow> string" where
  "path_join a b =
     (if b \<noteq> [] \<and> hd b = CHR ''/'' then b
      else if a = [] \<or> last a = CHR ''/'' then a @ b
      else a @ CHR ''/'' # b)"

section \<open>Errors\<close>

text \<open>
  The exceptions the script can raise by itself, each with its message (written without
  the quotation marks of the original); \<^verbatim>\<open>sys.exit(n)\<close> raises \<open>SystemExit n\<close>.
\<close>

datatype error =
    IndexError string
  | KeyError string
  | AttributeError string
  | TypeError string
  | ValueError string
  | EOFError
  | SystemExit nat

section \<open>The key-name pattern\<close>

text \<open>
  \<^verbatim>\<open>re.match(r'^op:\/\/(?:\w+\s*)*?\/((?:\w+\s*)*)/.*$', ref)\<close>

  \<open>word_runs\<close> is a full match of \<^verbatim>\<open>(?:\w+\s*)*\<close>: the empty string, or a string of word
  and space characters that starts with a word character.  Neither class contains the
  slash, so in a match the vault segment is the text up to the first slash after
  \<^verbatim>\<open>op://\<close> and the captured segment is the text between that slash and the next one:
  the lazy and the greedy repetition have no choice.  \<open>dot_star_end\<close> is a full match of
  \<^verbatim>\<open>.*$\<close>: no newline, except that \<^verbatim>\<open>$\<close> also matches just before a newline that
  ends the string.  \<open>re_match\<close> returns the groups of the match object, or \<open>None\<close>.
\<close>

definition word_runs :: "string \<Rightarrow> bool" where
  "word_runs s =
     (case s of [] \<Rightarrow> True
      | c # cs \<Rightarrow> is_word c \<and> list_all (\<lambda>d. is_word d \<or> is_space d) cs)"

definition dot_star_end :: "string \<Rightarrow> bool" where
  "dot_star_end s = (NL \<notin> set (butlast s))"

definition re_match :: "string \<Rightarrow> string list option" where
  "re_match ref =
     (if take 5 ref \<noteq> ''op://'' then None
      else
        let r1 = drop 5 ref;
            vault = takeWhile (\<lambda>c. c \<noteq> CHR ''/'') r1;
            r2 = dropWhile (\<lambda>c. c \<noteq> CHR ''/'') r1
        in if r2 = [] then None
           else
             let r3 = tl r2;
                 item = takeWhile (\<lambda>c. c \<noteq> CHR ''/'') r3;
                 r4 = dropWhile (\<lambda>c. c \<noteq> CHR ''/'') r3
             in if r4 = [] then None
                else if word_runs vault \<and> word_runs item \<and> dot_star_end (tl r4)
                then Some [item] else None)"

text \<open>\<^verbatim>\<open>m.group(n)\<close> for \<open>n \<ge> 1\<close>, on the groups of a match object\<close>

definition group :: "string list \<Rightarrow> nat \<Rightarrow> error + string" where
  "group gs n =
     (if 1 \<le> n \<and> n \<le> length gs then Inr (gs ! (n - 1))
      else Inl (IndexError ''no such group''))"

text \<open>
  Lines 70 to 73: the \<^verbatim>\<open>try\<close> around \<^verbatim>\<open>re.match(...).group(1)\<close>.  When the reference does
  not match, \<^verbatim>\<open>re.match\<close> returns \<^verbatim>\<open>None\<close> and the attribute access raises
  \<^verbatim>\<open>AttributeError\<close>, which the handler for \<^verbatim>\<open>IndexError\<close> does not catch.
\<close>

definition extract_keyname :: "string \<Rightarrow> error + string option" where
  "extract_keyname ref =
     (case re_match ref of
        None \<Rightarrow> Inl (AttributeError ''NoneType object has no attribute group'')
      | Some gs \<Rightarrow>
          (case group gs 1 of
             Inl (IndexError _) \<Rightarrow> Inr None
           | Inl e \<Rightarrow> Inl e
           | Inr g \<Rightarrow> Inr (Some g)))"

section \<open>The entry\<close>

text \<open>
  An instance of the class \<^verbatim>\<open>SSHConfigEntry\<close>: the attributes that \<^verbatim>\<open>__init__\<close> assigns
  by name, and \<open>attrs\<close> for every other instance attribute that \<^verbatim>\<open>setattr\<close> creates
  (a dictionary in insertion order, as the instance dictionary is).
\<close>

record SSHConfigEntry =
  key :: string
  keyname :: "string option"
  options :: "string option"
  user :: "string option"
  aliases :: "string option"
  url :: "string option"
  attrs :: "(string \<times> string) list"

text \<open>
  \<^verbatim>\<open>setattr(self, name, value)\<close> with a string value.  Three names are data descriptors of
  every instance and refuse a string; every other name is stored, also the names of the
  two methods, which the instance attribute then shadows.
\<close>

definition setattr :: "SSHConfigEntry \<Rightarrow> string \<Rightarrow> string \<Rightarrow> error + SSHConfigEntry" where
  "setattr self name v =
     (if name = ''key'' then Inr (self\<lparr>key := v\<rparr>)
      else if name = ''keyname'' then Inr (self\<lparr>keyname := Some v\<rparr>)
      else if name = ''options'' then Inr (self\<lparr>options := Some v\<rparr>)
      else if name = ''user'' then Inr (self\<lparr>user := Some v\<rparr>)
      else if name = ''aliases'' then Inr (self\<lparr>aliases := Some v\<rparr>)
      else if name = ''url'' then Inr (self\<lparr>url := Some v\<rparr>)
      else if name = ''__class__'' then Inl (TypeError ''__class__ must be set to a class, not str object'')
      else if name = ''__dict__'' then Inl (TypeError ''__dict__ must be set to a dictionary, not a str'')
      else if name = ''__weakref__'' then Inl (AttributeError ''attribute __weakref__ of SSHConfigEntry objects is not writable'')
      else Inr (self\<lparr>attrs := AList.update name v (attrs self)\<rparr>))"

text \<open>
  Lines 83 to 85: the loop over the lines of the parameter blob.  A line without a space
  splits into one piece, and the assignment to \<^verbatim>\<open>key, value\<close> raises.
\<close>

fun set_params :: "string list \<Rightarrow> SSHConfigEntry \<Rightarrow> error + SSHConfigEntry" where
  "set_params [] self = Inr self"
| "set_params (param # params) self =
     (case split1 CHR '' '' param of
        [k, v] \<Rightarrow>
          (case setattr self k v of
             Inl e \<Rightarrow> Inl e
           | Inr self' \<Rightarrow> set_params params self')
      | _ \<Rightarrow> Inl (ValueError ''not enough values to unpack (expected 2, got 1)''))"

text \<open>\<^verbatim>\<open>json[i]\<close> and \<^verbatim>\<open>d[k]\<close> on the decoded output of the command-line tool\<close>

definition getitem :: "'a list \<Rightarrow> nat \<Rightarrow> error + 'a" where
  "getitem xs i = (if i < length xs then Inr (xs ! i) else Inl (IndexError ''list index out of range''))"

definition getkey :: "(string \<rightharpoonup> string) \<Rightarrow> string \<Rightarrow> error + string" where
  "getkey d k = (case d k of None \<Rightarrow> Inl (KeyError k) | Some v \<Rightarrow> Inr v)"

text \<open>Sequencing of steps that can raise\<close>

definition bind :: "error + 'a \<Rightarrow> ('a \<Rightarrow> error + 'b) \<Rightarrow> error + 'b" where
  "bind m f = (case m of Inl e \<Rightarrow> Inl e | Inr x \<Rightarrow> f x)"

definition no_url_message :: "string option \<Rightarrow> string" where
  "no_url_message kn =
     ''Key does not specify a URL to connect to! Add a URL field to the 1Password entry for '' @ fmt kn"

text \<open>
  Lines 87 to 96: the check for the URL, the fallback of the key name and the replacement
  of spaces.
\<close>

definition finish :: "SSHConfigEntry \<Rightarrow> error + SSHConfigEntry" where
  "finish self =
     (case url self of
        None \<Rightarrow> Inl (ValueError (no_url_message (keyname self)))
      | Some u \<Rightarrow>
          (let kn = (case keyname self of None \<Rightarrow> u | Some k \<Rightarrow> k)
           in Inr (self\<lparr>keyname := Some (replace CHR '' '' CHR ''_'' kn)\<rparr>)))"

text \<open>\<^verbatim>\<open>SSHConfigEntry.__init__\<close>, in the order of the source.\<close>

definition init :: "(string \<rightharpoonup> string) list \<Rightarrow> error + SSHConfigEntry" where
  "init json =
     bind (getitem json 0) (\<lambda>f0.
     bind (getkey f0 ''value'') (\<lambda>k.
     bind (getkey f0 ''reference'') (\<lambda>ref.
     bind (extract_keyname ref) (\<lambda>kn.
     bind (getitem json 1) (\<lambda>f1.
     bind (getkey f1 ''value'') (\<lambda>blob.
     bind (set_params (split NL blob)
             \<lparr>key = k, keyname = kn, options = None, user = None, aliases = None,
              url = None, attrs = []\<rparr>)
       finish))))))"

text \<open>The decoded output of the tool for one item: public key, reference, parameter blob\<close>

definition item_json :: "string \<Rightarrow> string \<Rightarrow> string \<Rightarrow> (string \<rightharpoonup> string) list" where
  "item_json pubkey ref blob =
     [[''value'' \<mapsto> pubkey, ''reference'' \<mapsto> ref], [''value'' \<mapsto> blob]]"

section \<open>Output and the filesystem\<close>

text \<open>
  The effects of the script are recorded in the order in which it issues them: the lines
  printed to standard output and to standard error, and the operations on the filesystem.
  Failures of the operating system (a missing parent directory, a refused permission) are
  outside the model.
\<close>

datatype fs_op =
    MakeArchive string string
  | Rmtree string
  | Mkdir string
  | OpenWrite string
  | Write string string

record world =
  stdout :: "string list"
  stderr :: "string list"
  fs :: "fs_op list"

definition print :: "string \<Rightarrow> world \<Rightarrow> world" where
  "print line w = w\<lparr>stdout := stdout w @ [line]\<rparr>"

definition eprint :: "string \<Rightarrow> world \<Rightarrow> world" where
  "eprint line w = w\<lparr>stderr := stderr w @ [line]\<rparr>"

definition fs_do :: "fs_op list \<Rightarrow> world \<Rightarrow> world" where
  "fs_do ops w = w\<lparr>fs := fs w @ ops\<rparr>"

section \<open>Serialization\<close>

text \<open>\<^verbatim>\<open>SSHConfigEntry._make_key\<close>\<close>

definition make_key :: "SSHConfigEntry \<Rightarrow> string \<Rightarrow> world \<Rightarrow> (error + unit) \<times> world" where
  "make_key self path w =
     (case keyname self of
        None \<Rightarrow> (Inl (TypeError ''unsupported operand type(s) for +: NoneType and str''), w)
      | Some kn \<Rightarrow>
          (let f = path_join path (kn @ ''.pub'')
           in (Inr (), fs_do [OpenWrite f, Write f (key self)] w)))"

text \<open>Lines 122 to 136: the text of the stanza, for the key name \<open>kn\<close>.\<close>

definition stanza :: "SSHConfigEntry \<Rightarrow> string \<Rightarrow> string" where
  "stanza self kn =
     ''Host '' @ fmt (url self) @ '' ''
       @ (case aliases self of
            None \<Rightarrow> []
          | Some a \<Rightarrow> if a \<noteq> [] then replace CHR '','' CHR '' '' a else []) @ [NL]
     @ TAB # ''HostName '' @ fmt (url self) @ [NL]
     @ TAB # ''IdentityFile '' @ DQ # path_join (path_join ''%d'' ''.ssh'') (kn @ ''.pub'') @ [DQ, NL]
     @ TAB # ''IdentitiesOnly yes'' @ [NL]
     @ (case user self of
          None \<Rightarrow> []
        | Some u \<Rightarrow> if u \<noteq> [] then TAB # ''User '' @ u @ [NL] else [])
     @ (case options self of
          None \<Rightarrow> []
        | Some os \<Rightarrow>
            if os \<noteq> [] then concat (map (\<lambda>opt. TAB # opt @ [NL]) (split CHR '','' os)) else [])"

text \<open>
  \<^verbatim>\<open>SSHConfigEntry.serialize\<close>, called as \<^verbatim>\<open>entry.serialize(path)\<close>.  An instance
  attribute named \<^verbatim>\<open>serialize\<close> or \<^verbatim>\<open>_make_key\<close> is a string that shadows the method, and
  the call of it raises.
\<close>

definition serialize :: "SSHConfigEntry \<Rightarrow> string \<Rightarrow> world \<Rightarrow> (error + string) \<times> world" where
  "serialize self path w =
     (if map_of (attrs self) ''serialize'' \<noteq> None
      then (Inl (TypeError ''str object is not callable''), w)
      else
        let w1 = print (''Generating key and config entry for '' @ fmt (keyname self)) w
        in if map_of (attrs self) ''_make_key'' \<noteq> None
           then (Inl (TypeError ''str object is not callable''), w1)
           else
             (case make_key self path w1 of
                (Inl e, w2) \<Rightarrow> (Inl e, w2)
              | (Inr _, w2) \<Rightarrow>
                  (case keyname self of
                     None \<Rightarrow> (Inl (TypeError ''unsupported operand type(s) for +: NoneType and str''), w2)
                   | Some kn \<Rightarrow> (Inr (stanza self kn), w2))))"

section \<open>The environment\<close>

text \<open>
  What the script reads from outside: whether the kernel release names WSL
  (\<^verbatim>\<open>is_wsl\<close>), \<^verbatim>\<open>shutil.which\<close>, \<^verbatim>\<open>os.path.exists\<close>, \<^verbatim>\<open>os.getlogin\<close>, the result of
  \<^verbatim>\<open>time.strftime\<close>, the output of a command (\<^verbatim>\<open>call_shell\<close>) and that output decoded by
  \<^verbatim>\<open>json.loads\<close>.  The commands are taken to succeed.
\<close>

record env =
  is_wsl :: bool
  which :: "string \<Rightarrow> string option"
  path_exists :: "string \<Rightarrow> bool"
  getlogin :: string
  strftime :: string
  call_shell :: "string \<Rightarrow> string"
  call_shell_json :: "string \<Rightarrow> (string \<rightharpoonup> string) list"

section \<open>The configuration file\<close>

definition header1 :: string where
  "header1 = ''# This file was automatically generated by a Chezmoi script. Changes will be overwritten if `chezmoi apply` or `chezmoi update` is ran.'' @ [NL]"

definition header2 :: string where
  "header2 = ''# You can find the script somewhere in the directory opened with `chezmoi cd`.'' @ [NL, NL]"

definition agent_stanza :: string where
  "agent_stanza = ''Host *'' @ [NL, TAB] @ ''IdentityAgent ~/.1password/agent.sock'' @ [NL]"

text \<open>Lines 177 to 179: the loop over the entries, writing to the open file \<open>cfg\<close>.\<close>

fun write_entries :: "SSHConfigEntry list \<Rightarrow> string \<Rightarrow> string \<Rightarrow> world \<Rightarrow> (error + unit) \<times> world" where
  "write_entries [] path cfg w = (Inr (), w)"
| "write_entries (entry # entries) path cfg w =
     (case serialize entry path (fs_do [Write cfg [NL]] w) of
        (Inl e, w') \<Rightarrow> (Inl e, w')
      | (Inr text, w') \<Rightarrow> write_entries entries path cfg (fs_do [Write cfg text] w'))"

text \<open>Lines 162 to 166: the backup of an existing directory.\<close>

definition backup :: "env \<Rightarrow> string \<Rightarrow> world \<Rightarrow> world" where
  "backup env path w =
     (if path_exists env path
      then
        let base_name = path @ ''-'' @ strftime env @ ''.old'';
            new_loc = base_name @ ''.tar.gz'';
            w1 = fs_do [MakeArchive base_name path] w;
            w2 = print (''Moving old version of .ssh directory to a backup location at '' @ DQ # new_loc @ [DQ]) w1
        in fs_do [Rmtree path] w2
      else w)"

text \<open>\<^verbatim>\<open>make_config\<close>\<close>

definition make_config :: "env \<Rightarrow> SSHConfigEntry list \<Rightarrow> string \<Rightarrow> world \<Rightarrow> (error + unit) \<times> world" where
  "make_config env entries path w =
     (let w1 = fs_do [Mkdir path] (backup env path w);
          cfg = path_join path ''config'';
          w2 = fs_do [OpenWrite cfg, Write cfg header1, Write cfg header2] w1;
          w3 = (if \<not> is_wsl env then fs_do [Write cfg agent_stanza] w2 else w2)
      in write_entries entries path cfg w3)"

text \<open>The texts written to the file \<open>f\<close>, in order\<close>

fun writes_to :: "string \<Rightarrow> fs_op list \<Rightarrow> string list" where
  "writes_to f [] = []"
| "writes_to f (Write g text # ops) = (if g = f then text # writes_to f ops else writes_to f ops)"
| "writes_to f (_ # ops) = writes_to f ops"

section \<open>The orchestrator\<close>

text \<open>
  Standard input is the list of the lines that remain to be read; \<^verbatim>\<open>input(prompt)\<close>
  prints the prompt and takes the first of them, or raises \<^verbatim>\<open>EOFError\<close> when none is
  left.
\<close>

definition input :: "string \<Rightarrow> string list \<Rightarrow> world \<Rightarrow> (error + string) \<times> string list \<times> world" where
  "input prompt stdin w =
     (case stdin of
        [] \<Rightarrow> (Inl EOFError, [], print prompt w)
      | l # ls \<Rightarrow> (Inr l, ls, print prompt w))"

text \<open>\<^verbatim>\<open>get_op_exe\<close>; the module constant \<^verbatim>\<open>OP_EXE\<close> is \<^verbatim>\<open>None\<close>.\<close>

definition get_op_exe :: "env \<Rightarrow> string option" where
  "get_op_exe env = (if is_wsl env then which env ''op.exe'' else which env ''op'')"

text \<open>\<^verbatim>\<open>get_ssh_path\<close>\<close>

definition get_ssh_path :: "env \<Rightarrow> string list \<Rightarrow> world \<Rightarrow> (error + string) \<times> string list \<times> world" where
  "get_ssh_path env stdin w =
     (if is_wsl env
      then
        (case (if truthy (which env ''powershell.exe'') then which env ''powershell.exe'' else None) of
           Some ps \<Rightarrow>
             (Inr (''/mnt/c/users/'' @ strip (call_shell env (ps @ '' '' @ SQ # ''$env:UserName'' @ [SQ])) @ ''/.ssh''),
              stdin, w)
         | None \<Rightarrow>
             (case input ''What is your Windows username? '' stdin
                     (print ''Hi! You appear to be using WSL, so we need some extra info.'' w) of
                (Inl e, stdin', w') \<Rightarrow> (Inl e, stdin', w')
              | (Inr win_user, stdin', w') \<Rightarrow>
                  (Inr (''/mnt/c/users/'' @ win_user @ ''/.ssh''), stdin',
                   print ''Thanks, back to work!'' w')))
      else (Inr (''/home/'' @ getlogin env @ ''/.ssh''), stdin, w))"

text \<open>
  Lines 195 to 200: the confirmation loop.  Each round prints the prompt and reads one
  line; the loop ends when the answer is recognised, or when standard input is exhausted.
\<close>

definition confirm_prompt :: string where
  "confirm_prompt = ''This will replace your existing directory, but a backup will be made. Continue? (Y/n) ''"

fun confirm :: "string list \<Rightarrow> world \<Rightarrow> (error + unit) \<times> string list \<times> world" where
  "confirm [] w = (Inl EOFError, [], print confirm_prompt w)"
| "confirm (l # ls) w =
     (let answer = strip (lower l)
      in if answer = ''y'' \<or> answer = [] then (Inr (), ls, print confirm_prompt w)
         else if answer = ''n'' then (Inl (SystemExit 0), ls, print confirm_prompt w)
         else confirm ls (print confirm_prompt w))"

text \<open>\<^verbatim>\<open>re.search(pat, s, re.IGNORECASE)\<close> for a pattern of letters: is there a match?\<close>

fun search_ignorecase :: "string \<Rightarrow> string \<Rightarrow> bool" where
  "search_ignorecase pat [] = (pat = [])"
| "search_ignorecase pat (c # cs) =
     (lower (take (length pat) (c # cs)) = lower pat \<or> search_ignorecase pat cs)"

text \<open>Lines 204 to 211: the identifiers of the listed items, the signing keys left out.\<close>

fun select_keys :: "(string \<rightharpoonup> string) list \<Rightarrow> world \<Rightarrow> (error + string list) \<times> world" where
  "select_keys [] w = (Inr [], w)"
| "select_keys (k # ks) w =
     (case getkey k ''title'' of
        Inl e \<Rightarrow> (Inl e, w)
      | Inr title \<Rightarrow>
          if search_ignorecase ''signing'' title
          then select_keys ks (print (''Omitting '' @ title @ '' - this key appears to be for signing!'') w)
          else
            (case getkey k ''id'' of
               Inl e \<Rightarrow> (Inl e, w)
             | Inr i \<Rightarrow>
                 (case select_keys ks w of
                    (Inl e, w') \<Rightarrow> (Inl e, w')
                  | (Inr ids, w') \<Rightarrow> (Inr (i # ids), w'))))"

text \<open>Lines 214 to 218: one entry for each identifier; the first failure ends the run.\<close>

fun fetch_entries :: "env \<Rightarrow> string \<Rightarrow> string list \<Rightarrow> error + SSHConfigEntry list" where
  "fetch_entries env op_exe [] = Inr []"
| "fetch_entries env op_exe (k # ks) =
     bind (init (call_shell_json env
                  (op_exe @ '' item get --format json --fields label='' @ DQ # ''public key'' @ DQ
                     # '',label='' @ DQ # ''chezmoi params'' @ DQ # '' '' @ k))) (\<lambda>entry.
     bind (fetch_entries env op_exe ks) (\<lambda>entries.
     Inr (entry # entries)))"

text \<open>\<^verbatim>\<open>main\<close>\<close>

definition main :: "env \<Rightarrow> string list \<Rightarrow> world \<Rightarrow> (error + unit) \<times> world" where
  "main env stdin w =
     (case get_op_exe env of
        None \<Rightarrow>
          (let w1 = eprint ''1Password CLI not installed! Quitting.'' w;
               w2 = (if is_wsl env
                     then eprint (''Hint: If you'' @ SQ # ''re trying to use WSL, you need the Windows CLI installed, not Linux!'') w1
                     else w1)
           in (Inl (SystemExit 1), w2))
      | Some op_exe \<Rightarrow>
          (case get_ssh_path env stdin (print ''Generating a new SSH directory...'' w) of
             (Inl e, _, w1) \<Rightarrow> (Inl e, w1)
           | (Inr path, stdin1, w1) \<Rightarrow>
               (case (if path_exists env path then confirm stdin1 w1 else (Inr (), stdin1, w1)) of
                  (Inl e, _, w2) \<Rightarrow> (Inl e, w2)
                | (Inr _, _, w2) \<Rightarrow>
                    (case select_keys (call_shell_json env (op_exe @ '' item list --categories SSHKEY --format json'')) w2 of
                       (Inl e, w3) \<Rightarrow> (Inl e, w3)
                     | (Inr key_ids, w3) \<Rightarrow>
                         (case fetch_entries env op_exe key_ids of
                            Inl e \<Rightarrow> (Inl e, w3)
                          | Inr entries \<Rightarrow> make_config env entries path w3)))))"

text \<open>The exit status of the process\<close>

definition exit_status :: "error + unit \<Rightarrow> nat" where
  "exit_status r = (case r of Inr _ \<Rightarrow> 0 | Inl (SystemExit n) \<Rightarrow> n | Inl _ \<Rightarrow> 1)"

section \<open>Vocabulary of the properties\<close>

text \<open>
  The field name and the remaining text of a line of the parameter blob: what precedes
  and what follows its first space.
\<close>

definition field_name :: "string \<Rightarrow> string" where
  "field_name line = takeWhile (\<lambda>c. c \<noteq> CHR '' '') line"

definition field_text :: "string \<Rightarrow> string" where
  "field_text line = tl (dropWhile (\<lambda>c. c \<noteq> CHR '' '') line)"

text \<open>The lines with a given field name, in the order of the blob\<close>

definition lines_named :: "string \<Rightarrow> string list \<Rightarrow> string list" where
  "lines_named name ls = filter (\<lambda>l. field_name l = name) ls"

text \<open>\<^verbatim>\<open>getattr(self, name, None)\<close> on the instance attributes\<close>

definition getattr :: "SSHConfigEntry \<Rightarrow> string \<Rightarrow> string option" where
  "getattr self name =
     (if name = ''key'' then Some (key self)
      else if name = ''keyname'' then keyname self
      else if name = ''options'' then options self
      else if name = ''user'' then user self
      else if name = ''aliases'' then aliases self
      else if name = ''url'' then url self
      else map_of (attrs self) name)"

text \<open>The names that \<^verbatim>\<open>setattr\<close> stores in the instance dictionary beside the six attributes\<close>

definition stored :: "string \<Rightarrow> bool" where
  "stored name = (name \<noteq> ''key'' \<and> name \<noteq> ''keyname'' \<and> name \<noteq> ''options'' \<and> name \<noteq> ''user''
     \<and> name \<noteq> ''aliases'' \<and> name \<noteq> ''url'')"

text \<open>The names to which \<^verbatim>\<open>setattr\<close> refuses to assign a string\<close>

definition refused :: "string \<Rightarrow> bool" where
  "refused name = (name = ''__class__'' \<or> name = ''__dict__'' \<or> name = ''__weakref__'')"

text \<open>A line that the loop over the parameters accepts: it has a space, and its name is assignable\<close>

definition plain_line :: "string \<Rightarrow> bool" where
  "plain_line l = (CHR '' '' \<in> set l \<and> \<not> refused (field_name l))"

text \<open>
  The names whose instance attribute nothing reads: they are stored in the instance
  dictionary and shadow no method.
\<close>

definition inert :: "string \<Rightarrow> bool" where
  "inert name = (stored name \<and> name \<noteq> ''serialize'' \<and> name \<noteq> ''_make_key'')"

definition inert_line :: "string \<Rightarrow> bool" where
  "inert_line l = (CHR '' '' \<in> set l \<and> inert (field_name l))"

text \<open>The blob without its inert lines\<close>

definition without_inert :: "string \<Rightarrow> string" where
  "without_inert blob = join NL (filter (\<lambda>l. \<not> inert_line l) (split NL blob))"

text \<open>The four field names that the documentation of the parameters names\<close>

definition recognized :: "string \<Rightarrow> bool" where
  "recognized name = (name = ''options'' \<or> name = ''user'' \<or> name = ''aliases'' \<or> name = ''url'')"

definition unrecognized_line :: "string \<Rightarrow> bool" where
  "unrecognized_line l = (CHR '' '' \<in> set l \<and> \<not> recognized (field_name l))"

text \<open>The blob without the lines of any other field name\<close>

definition without_unrecognized :: "string \<Rightarrow> string" where
  "without_unrecognized blob = join NL (filter (\<lambda>l. \<not> unrecognized_line l) (split NL blob))"

text \<open>What \<^verbatim>\<open>serialize\<close> reads of an entry\<close>

definition core :: "SSHConfigEntry \<Rightarrow> string \<times> string option \<times> string option \<times> string option \<times> string option \<times> string option \<times> string option \<times> string option" where
  "core self = (key self, keyname self, options self, user self, aliases self, url self,
                map_of (attrs self) ''serialize'', map_of (attrs self) ''_make_key'')"

section \<open>Splitting and joining\<close>


lemma split_no_sep: "l \<in> set (split sep s) \<Longrightarrow> sep \<notin> set l"
  by (induction s arbitrary: l) (auto split: list.splits if_splits)




lemma split_join:
  "xs \<noteq> [] \<Longrightarrow> \<forall>x\<in>set xs. sep \<notin> set x \<Longrightarrow> split sep (join sep xs) = xs"
proof (induction xs rule: join.induct[of _ sep])
  case (1 sep)
  then show ?case by simp
next
  case (2 sep x)
  then show ?case by (induction x) auto
next
  case (3 sep x y ys)
  then have IH: "split sep (join sep (y # ys)) = y # ys" by simp
  from 3 have "sep \<notin> set x" by simp
  then show ?case using IH by (induction x) auto
qed


section \<open>Construction of an entry\<close>

lemma split1_two:
  "split1 CHR '' '' l = [k, v] \<longleftrightarrow> CHR '' '' \<in> set l \<and> k = field_name l \<and> v = field_text l"
  by (auto simp: split1_def field_name_def field_text_def)

lemma line_decomposition:
  "CHR '' '' \<in> set l \<Longrightarrow> l = field_name l @ CHR '' '' # field_text l"
proof -
  assume sp: "CHR '' '' \<in> set l"
  then have ne: "dropWhile (\<lambda>c. c \<noteq> CHR '' '') l \<noteq> []" by simp
  then have "hd (dropWhile (\<lambda>c. c \<noteq> CHR '' '') l) = CHR '' ''"
    using hd_dropWhile[of "\<lambda>c. c \<noteq> CHR '' ''" l] by simp
  with ne have "dropWhile (\<lambda>c. c \<noteq> CHR '' '') l = CHR '' '' # field_text l"
    by (cases "dropWhile (\<lambda>c. c \<noteq> CHR '' '') l") (simp_all add: field_text_def)
  then show ?thesis
    using takeWhile_dropWhile_id[of "\<lambda>c. c \<noteq> CHR '' ''" l] by (simp add: field_name_def)
qed

lemma set_params_Cons_ok:
  assumes "set_params (l # ls) s = Inr s'"
  obtains s1 where "CHR '' '' \<in> set l" and "setattr s (field_name l) (field_text l) = Inr s1"
    and "set_params ls s1 = Inr s'"
proof -
  from assms obtain k v s1 where sp: "split1 CHR '' '' l = [k, v]"
    and sa: "setattr s k v = Inr s1" and rest: "set_params ls s1 = Inr s'"
    by (auto split: list.splits sum.splits)
  from sp have "CHR '' '' \<in> set l" "k = field_name l" "v = field_text l"
    by (simp_all add: split1_two)
  with sa rest that show thesis by simp
qed

lemma setattr_url:
  "setattr s k v = Inr s' \<Longrightarrow> url s' = (if k = ''url'' then Some v else url s)"
  by (auto simp: setattr_def split: if_splits)

lemma set_params_url:
  "set_params ls s = Inr s' \<Longrightarrow>
   url s' = (if lines_named ''url'' ls = [] then url s
             else Some (field_text (last (lines_named ''url'' ls))))"
proof (induction ls arbitrary: s)
  case Nil
  then show ?case by (simp add: lines_named_def)
next
  case (Cons l ls)
  from Cons.prems obtain s1 where sa: "setattr s (field_name l) (field_text l) = Inr s1"
    and rest: "set_params ls s1 = Inr s'"
    by (rule set_params_Cons_ok)
  from Cons.IH[OF rest] setattr_url[OF sa] show ?case
    by (auto simp: lines_named_def)
qed

lemma set_params_spaces:
  "set_params ls s = Inr s' \<Longrightarrow> \<forall>l\<in>set ls. CHR '' '' \<in> set l"
proof (induction ls arbitrary: s)
  case Nil
  then show ?case by simp
next
  case (Cons l ls)
  from Cons.prems obtain s1 where "CHR '' '' \<in> set l" and "set_params ls s1 = Inr s'"
    by (rule set_params_Cons_ok)
  with Cons.IH show ?case by auto
qed

lemma finish_ok:
  "finish s = Inr e \<Longrightarrow>
   (\<exists>u. url e = Some u \<and> url s = Some u) \<and> (\<exists>k. keyname e = Some k \<and> CHR '' '' \<notin> set k)"
  by (auto simp: finish_def replace_def Let_def split: option.splits)

lemma init_finish: "init json = Inr e \<Longrightarrow> \<exists>s. finish s = Inr e"
  by (auto simp: init_def bind_def split: sum.splits)

lemma init_item_json:
  "init (item_json k ref blob) =
     bind (extract_keyname ref) (\<lambda>kn.
     bind (set_params (split NL blob)
             \<lparr>key = k, keyname = kn, options = None, user = None, aliases = None,
              url = None, attrs = []\<rparr>)
       finish)"
  by (simp add: init_def item_json_def bind_def getitem_def getkey_def)

lemma init_item_json_ok:
  assumes "init (item_json k ref blob) = Inr e"
  obtains kn s where "extract_keyname ref = Inr kn"
    and "set_params (split NL blob)
           \<lparr>key = k, keyname = kn, options = None, user = None, aliases = None,
            url = None, attrs = []\<rparr> = Inr s"
    and "finish s = Inr e"
  using assms unfolding init_item_json bind_def by (auto split: sum.splits)

lemma setattr_stored:
  "stored k \<Longrightarrow> setattr s k v = Inr s' \<Longrightarrow> s' = s\<lparr>attrs := AList.update k v (attrs s)\<rparr>"
  by (simp add: setattr_def stored_def split: if_splits)

lemma getattr_stored: "stored n \<Longrightarrow> getattr s n = map_of (attrs s) n"
  by (simp add: getattr_def stored_def)

lemma getattr_attrs_update:
  "getattr (s\<lparr>attrs := a\<rparr>) n = (if stored n then map_of a n else getattr s n)"
  by (simp add: getattr_def stored_def)

lemma setattr_getattr:
  assumes "setattr s k v = Inr s'"
  shows "getattr s' n = (if n = k then Some v else getattr s n)"
proof -
  consider "k = ''key''" | "k = ''keyname''" | "k = ''options''" | "k = ''user''"
    | "k = ''aliases''" | "k = ''url''" | "stored k"
    unfolding stored_def by blast
  then show ?thesis
  proof cases
    case 1
    with assms have "s' = s\<lparr>key := v\<rparr>" by (simp add: setattr_def)
    with 1 show ?thesis by (simp add: getattr_def)
  next
    case 2
    with assms have "s' = s\<lparr>keyname := Some v\<rparr>" by (simp add: setattr_def)
    with 2 show ?thesis by (simp add: getattr_def)
  next
    case 3
    with assms have "s' = s\<lparr>options := Some v\<rparr>" by (simp add: setattr_def)
    with 3 show ?thesis by (simp add: getattr_def)
  next
    case 4
    with assms have "s' = s\<lparr>user := Some v\<rparr>" by (simp add: setattr_def)
    with 4 show ?thesis by (simp add: getattr_def)
  next
    case 5
    with assms have "s' = s\<lparr>aliases := Some v\<rparr>" by (simp add: setattr_def)
    with 5 show ?thesis by (simp add: getattr_def)
  next
    case 6
    with assms have "s' = s\<lparr>url := Some v\<rparr>" by (simp add: setattr_def)
    with 6 show ?thesis by (simp add: getattr_def)
  next
    case 7
    from setattr_stored[OF 7 assms] have s': "s' = s\<lparr>attrs := AList.update k v (attrs s)\<rparr>" .
    show ?thesis
    proof (cases "stored n")
      case True
      then show ?thesis unfolding s' by (simp add: getattr_attrs_update getattr_stored update_conv')
    next
      case False
      with 7 have "n \<noteq> k" by auto
      with False show ?thesis unfolding s' by (simp add: getattr_attrs_update)
    qed
  qed
qed
lemma setattr_ok_iff: "(\<exists>s'. setattr s k v = Inr s') \<longleftrightarrow> \<not> refused k"
  unfolding setattr_def refused_def by auto

lemma set_params_getattr:
  "set_params ls s = Inr s' \<Longrightarrow>
   getattr s' n = (if lines_named n ls = [] then getattr s n
                   else Some (field_text (last (lines_named n ls))))"
proof (induction ls arbitrary: s)
  case Nil
  then show ?case by (simp add: lines_named_def)
next
  case (Cons l ls)
  from Cons.prems obtain s1 where sa: "setattr s (field_name l) (field_text l) = Inr s1"
    and rest: "set_params ls s1 = Inr s'"
    by (rule set_params_Cons_ok)
  from Cons.IH[OF rest] setattr_getattr[OF sa, of n] show ?case
    by (auto simp: lines_named_def)
qed

lemma set_params_ok_iff:
  "(\<exists>s'. set_params ls s = Inr s') \<longleftrightarrow> list_all plain_line ls"
proof (induction ls arbitrary: s)
  case Nil
  then show ?case by simp
next
  case (Cons l ls)
  show ?case
  proof
    assume "\<exists>s'. set_params (l # ls) s = Inr s'"
    then obtain s' where ok: "set_params (l # ls) s = Inr s'" ..
    from ok obtain s1 where sp: "CHR '' '' \<in> set l"
      and sa: "setattr s (field_name l) (field_text l) = Inr s1"
      and rest: "set_params ls s1 = Inr s'"
      by (rule set_params_Cons_ok)
    from sa have "\<not> refused (field_name l)" using setattr_ok_iff by blast
    moreover from rest Cons.IH have "list_all plain_line ls" by blast
    ultimately show "list_all plain_line (l # ls)" using sp by (simp add: plain_line_def)
  next
    assume all: "list_all plain_line (l # ls)"
    then have sp: "split1 CHR '' '' l = [field_name l, field_text l]"
      by (simp add: split1_two plain_line_def)
    from all have "\<not> refused (field_name l)" by (simp add: plain_line_def)
    then obtain s1 where sa: "setattr s (field_name l) (field_text l) = Inr s1"
      using setattr_ok_iff by blast
    from all Cons.IH obtain s' where "set_params ls s1 = Inr s'" by auto
    with sp sa show "\<exists>s'. set_params (l # ls) s = Inr s'" by simp
  qed
qed



lemma extract_keyname_match: "re_match ref = Some [g] \<Longrightarrow> extract_keyname ref = Inr (Some g)"
  by (simp add: extract_keyname_def group_def)

lemma finish_no_url: "url s = None \<Longrightarrow> finish s = Inl (ValueError (no_url_message (keyname s)))"
  by (simp add: finish_def)


lemma core_getattr:
  "core s = (the (getattr s ''key''), getattr s ''keyname'', getattr s ''options'', getattr s ''user'',
             getattr s ''aliases'', getattr s ''url'', getattr s ''serialize'', getattr s ''_make_key'')"
  by (simp add: core_def getattr_def)

lemma serialize_core:
  assumes "core e' = core e"
  shows "serialize e' p w = serialize e p w"
proof -
  from assms have eqs: "key e' = key e" "keyname e' = keyname e" "options e' = options e"
    "user e' = user e" "aliases e' = aliases e" "url e' = url e"
    "map_of (attrs e') ''serialize'' = map_of (attrs e) ''serialize''"
    "map_of (attrs e') ''_make_key'' = map_of (attrs e) ''_make_key''"
    by (simp_all add: core_def)
  have mk: "make_key e' p w1 = make_key e p w1" for w1
    unfolding make_key_def eqs ..
  have st: "stanza e' kn = stanza e kn" for kn
    unfolding stanza_def eqs ..
  show ?thesis
    unfolding serialize_def eqs mk st ..
qed

lemma finish_core:
  assumes "core t = core s" "finish s = Inr e"
  shows "\<exists>e'. finish t = Inr e' \<and> core e' = core e"
  using assms by (auto simp: finish_def core_def Let_def split: option.splits)

lemma finish_attrs: "finish s = Inr e \<Longrightarrow> attrs e = attrs s"
  by (auto simp: finish_def Let_def split: option.splits)

lemma lines_named_without_inert:
  "\<not> inert n \<Longrightarrow> lines_named n (filter (\<lambda>l. \<not> inert_line l) ls) = lines_named n ls"
  unfolding lines_named_def filter_filter
  by (rule filter_cong) (auto simp: inert_line_def)

lemma not_inert_names:
  "\<not> inert ''key''" "\<not> inert ''keyname''" "\<not> inert ''options''" "\<not> inert ''user''"
  "\<not> inert ''aliases''" "\<not> inert ''url''" "\<not> inert ''serialize''" "\<not> inert ''_make_key''"
  by (simp_all add: inert_def stored_def)

lemma set_params_without_inert:
  assumes "set_params ls s0 = Inr s"
  shows "\<exists>t. set_params (filter (\<lambda>l. \<not> inert_line l) ls) s0 = Inr t \<and> core t = core s"
proof -
  let ?fl = "filter (\<lambda>l. \<not> inert_line l) ls"
  from assms have "list_all plain_line ls" using set_params_ok_iff by blast
  then have "list_all plain_line ?fl" by (simp add: list_all_iff)
  then obtain t where t: "set_params ?fl s0 = Inr t" using set_params_ok_iff by blast
  have eq: "getattr t n = getattr s n" if "\<not> inert n" for n
    using set_params_getattr[OF t, of n] set_params_getattr[OF assms, of n]
      lines_named_without_inert[OF that, of ls] by simp
  have "core t = core s"
    unfolding core_getattr using not_inert_names by (simp add: eq)
  with t show ?thesis by blast
qed

text \<open>
  C1.  A reference that the pattern does not match: the claim has construction succeed
  with the host as key name; the attribute access on \<^verbatim>\<open>None\<close> raises instead, and the
  handler for \<^verbatim>\<open>IndexError\<close> lets it through.
\<close>

theorem init_unmatched_reference_raises:
  "init (item_json ''ssh-ed25519 AAAA'' ''op://Private/my-server/public key'' ''url example.com'')
     = Inl (AttributeError ''NoneType object has no attribute group'')"
  by code_simp

text \<open>
  C2 (as amended).  When construction succeeds, the host is set and the key name is a
  string without a space character.  Neither need be non-empty, and the key name may
  contain other whitespace.
\<close>

theorem init_host_set_keyname_no_space:
  "init json = Inr e \<Longrightarrow>
   (\<exists>u. url e = Some u) \<and> (\<exists>k. keyname e = Some k \<and> CHR '' '' \<notin> set k)"
  using init_finish[of json e] finish_ok by blast

theorem init_host_set_keyname_no_space_witness:
  "init (item_json ''ssh-ed25519 AAAA'' ''op://Vault/Example Host/item'' ''url example.com'')
     = Inr \<lparr>key = ''ssh-ed25519 AAAA'', keyname = Some ''Example_Host'', options = None,
            user = None, aliases = None, url = Some ''example.com'', attrs = []\<rparr>
   \<and> CHR '' '' \<notin> set ''Example_Host''"
proof -
  have h: "init (item_json ''ssh-ed25519 AAAA'' ''op://Vault/Example Host/item'' ''url example.com'')
     = Inr \<lparr>key = ''ssh-ed25519 AAAA'', keyname = Some ''Example_Host'', options = None,
            user = None, aliases = None, url = Some ''example.com'', attrs = []\<rparr>"
    by code_simp
  from init_host_set_keyname_no_space[OF h] h show ?thesis by simp
qed

text \<open>
  C2 as stated fails: an empty text after \<^verbatim>\<open>url\<close> and an empty item segment give an empty
  host and an empty key name, and a tab in the item segment stays in the key name.
\<close>

theorem init_empty_host_keyname_counterexample:
  "init (item_json ''ssh-ed25519 AAAA'' ''op://Vault//item'' ''url '')
     = Inr \<lparr>key = ''ssh-ed25519 AAAA'', keyname = Some [], options = None,
            user = None, aliases = None, url = Some [], attrs = []\<rparr>
   \<and> init (item_json ''ssh-ed25519 AAAA'' (''op://Vault/My'' @ TAB # ''Key/item'') ''url example.com'')
     = Inr \<lparr>key = ''ssh-ed25519 AAAA'', keyname = Some (''My'' @ TAB # ''Key''), options = None,
            user = None, aliases = None, url = Some ''example.com'', attrs = []\<rparr>
   \<and> is_space TAB"
  by code_simp

text \<open>
  C3 (as amended).  When construction succeeds, the blob has a line with the field name
  \<^verbatim>\<open>url\<close>, and the host is exactly what follows \<^verbatim>\<open>url\<close> and one space on the last such
  line: nothing is stripped, so trailing whitespace of the line is part of the host.
\<close>

theorem init_host_is_last_url_text:
  assumes "init (item_json k ref blob) = Inr e"
  shows "\<exists>u. url e = Some u \<and> lines_named ''url'' (split NL blob) \<noteq> []
           \<and> last (lines_named ''url'' (split NL blob)) = ''url '' @ u"
proof -
  let ?ls = "lines_named ''url'' (split NL blob)"
  from assms obtain kn s where
    sp: "set_params (split NL blob)
           \<lparr>key = k, keyname = kn, options = None, user = None, aliases = None,
            url = None, attrs = []\<rparr> = Inr s"
    and fin: "finish s = Inr e"
    by (rule init_item_json_ok)
  from finish_ok[OF fin] obtain u where u: "url e = Some u" "url s = Some u" by blast
  from set_params_url[OF sp] u have ne: "?ls \<noteq> []" and ut: "u = field_text (last ?ls)"
    by (auto split: if_splits)
  from ne have mem: "last ?ls \<in> set ?ls" by simp
  then have nm: "field_name (last ?ls) = ''url''" and "last ?ls \<in> set (split NL blob)"
    by (simp_all add: lines_named_def)
  with set_params_spaces[OF sp] have "CHR '' '' \<in> set (last ?ls)" by blast
  from line_decomposition[OF this] nm ut have "last ?ls = ''url '' @ u" by simp
  with u ne show ?thesis by blast
qed

theorem init_host_is_last_url_text_witness:
  "init (item_json ''ssh-ed25519 AAAA'' ''op://Vault/Example Host/item''
           (''url first.example.com'' @ NL # ''url example.com  ''))
     = Inr \<lparr>key = ''ssh-ed25519 AAAA'', keyname = Some ''Example_Host'', options = None,
            user = None, aliases = None, url = Some ''example.com  '', attrs = []\<rparr>
   \<and> last (lines_named ''url'' (split NL (''url first.example.com'' @ NL # ''url example.com  '')))
     = ''url example.com  ''"
proof -
  have h: "init (item_json ''ssh-ed25519 AAAA'' ''op://Vault/Example Host/item''
           (''url first.example.com'' @ NL # ''url example.com  ''))
     = Inr \<lparr>key = ''ssh-ed25519 AAAA'', keyname = Some ''Example_Host'', options = None,
            user = None, aliases = None, url = Some ''example.com  '', attrs = []\<rparr>"
    by code_simp
  from init_host_is_last_url_text[OF h] h show ?thesis by simp
qed

text \<open>
  C3 as stated fails: two spaces at the end of the \<^verbatim>\<open>url\<close> line are kept in the host.
\<close>

theorem init_host_trailing_space_counterexample:
  "init (item_json ''ssh-ed25519 AAAA'' ''op://Vault/Example Host/item'' ''url example.com  '')
     = Inr \<lparr>key = ''ssh-ed25519 AAAA'', keyname = Some ''Example_Host'', options = None,
            user = None, aliases = None, url = Some ''example.com  '', attrs = []\<rparr>
   \<and> is_space (last ''example.com  '')"
  by code_simp

text \<open>
  C4 (as amended).  A blob without a line named \<^verbatim>\<open>url\<close> makes construction fail.  When
  the reference matches the pattern and the loop accepts every line of the blob, the
  failure is the \<^verbatim>\<open>ValueError\<close> of line 89, and its message ends with the key name of
  that moment: the captured segment, or the text of the last \<^verbatim>\<open>keyname\<close> line of the
  blob.
\<close>

theorem init_no_url_fails:
  assumes "lines_named ''url'' (split NL blob) = []"
  shows "isl (init (item_json k ref blob))
     \<and> (re_match ref = Some [g] \<and> list_all plain_line (split NL blob) \<longrightarrow>
          init (item_json k ref blob) =
            Inl (ValueError (no_url_message
              (Some (if lines_named ''keyname'' (split NL blob) = [] then g
                     else field_text (last (lines_named ''keyname'' (split NL blob))))))))"
proof
  let ?s0 = "\<lambda>kn. \<lparr>key = k, keyname = kn, options = None, user = None, aliases = None,
            url = None, attrs = []\<rparr>"
  show "isl (init (item_json k ref blob))"
  proof (cases "init (item_json k ref blob)")
    case (Inl e)
    then show ?thesis by simp
  next
    case (Inr e)
    then obtain kn s where sp: "set_params (split NL blob) (?s0 kn) = Inr s"
      and fin: "finish s = Inr e"
      by (rule init_item_json_ok)
    from set_params_url[OF sp] assms have "url s = None" by simp
    with finish_ok[OF fin] show ?thesis by auto
  qed
  show "re_match ref = Some [g] \<and> list_all plain_line (split NL blob) \<longrightarrow>
          init (item_json k ref blob) =
            Inl (ValueError (no_url_message
              (Some (if lines_named ''keyname'' (split NL blob) = [] then g
                     else field_text (last (lines_named ''keyname'' (split NL blob)))))))"
  proof
    assume h: "re_match ref = Some [g] \<and> list_all plain_line (split NL blob)"
    then have ek: "extract_keyname ref = Inr (Some g)" by (simp add: extract_keyname_match)
    from h obtain s where sp: "set_params (split NL blob) (?s0 (Some g)) = Inr s"
      using set_params_ok_iff by blast
    from set_params_url[OF sp] assms have nu: "url s = None" by simp
    from set_params_getattr[OF sp, of "''keyname''"]
    have "keyname s = Some (if lines_named ''keyname'' (split NL blob) = [] then g
                     else field_text (last (lines_named ''keyname'' (split NL blob))))"
      by (simp add: getattr_def)
    with finish_no_url[OF nu] ek sp show "init (item_json k ref blob) =
            Inl (ValueError (no_url_message
              (Some (if lines_named ''keyname'' (split NL blob) = [] then g
                     else field_text (last (lines_named ''keyname'' (split NL blob)))))))"
      by (simp add: init_item_json bind_def)
  qed
qed

theorem init_no_url_fails_witness:
  "lines_named ''url'' (split NL ''user admin'') = []
   \<and> re_match ''op://Vault/Example Host/item'' = Some [''Example Host'']
   \<and> list_all plain_line (split NL ''user admin'')
   \<and> init (item_json ''ssh-ed25519 AAAA'' ''op://Vault/Example Host/item'' ''user admin'') =
       Inl (ValueError ''Key does not specify a URL to connect to! Add a URL field to the 1Password entry for Example Host'')"
proof -
  have a: "lines_named ''url'' (split NL ''user admin'') = []" by code_simp
  have b: "re_match ''op://Vault/Example Host/item'' = Some [''Example Host'']" by code_simp
  have c: "list_all plain_line (split NL ''user admin'')" by code_simp
  have d: "lines_named ''keyname'' (split NL ''user admin'') = []" by code_simp
  have e: "no_url_message (Some ''Example Host'') = ''Key does not specify a URL to connect to! Add a URL field to the 1Password entry for Example Host''"
    by code_simp
  from init_no_url_fails[OF a, of "''ssh-ed25519 AAAA''" "''op://Vault/Example Host/item''" "''Example Host''"] a b c d e
  show ?thesis by simp
qed

text \<open>
  C4 as stated fails: a blob without a \<^verbatim>\<open>url\<close> line whose last line is empty, or with a
  line for \<^verbatim>\<open>__dict__\<close>, fails earlier and with another error, whose message does not
  name the entry.
\<close>

theorem init_no_url_other_error_counterexample:
  "lines_named ''url'' (split NL (''user admin'' @ [NL])) = []
   \<and> init (item_json ''ssh-ed25519 AAAA'' ''op://Vault/Example Host/item'' (''user admin'' @ [NL]))
      = Inl (ValueError ''not enough values to unpack (expected 2, got 1)'')
   \<and> lines_named ''url'' (split NL ''__dict__ x'') = []
   \<and> init (item_json ''ssh-ed25519 AAAA'' ''op://Vault/Example Host/item'' ''__dict__ x'')
      = Inl (TypeError ''__dict__ must be set to a dictionary, not a str'')"
  by code_simp






text \<open>
  C5 (as amended).  The lines whose field name is none of \<^verbatim>\<open>options\<close>, \<^verbatim>\<open>user\<close>,
  \<^verbatim>\<open>aliases\<close>, \<^verbatim>\<open>url\<close>, \<^verbatim>\<open>key\<close>, \<^verbatim>\<open>keyname\<close>, \<^verbatim>\<open>serialize\<close> and \<^verbatim>\<open>_make_key\<close>
  are stored as extra attributes and change nothing in serialization: when construction
  succeeds on a blob, it succeeds on the blob without those lines, and \<^verbatim>\<open>serialize\<close>
  gives the same result and the same effects (the stanza, the printed line, the key file)
  for both entries.
\<close>

theorem inert_lines_leave_serialization:
  assumes "init (item_json k ref blob) = Inr e"
  shows "(\<exists>e'. init (item_json k ref (without_inert blob)) = Inr e'
            \<and> serialize e' path w = serialize e path w)
     \<and> (\<forall>l\<in>set (split NL blob). inert_line l \<longrightarrow>
           map_of (attrs e) (field_name l)
             = Some (field_text (last (lines_named (field_name l) (split NL blob)))))"
proof
  let ?ls = "split NL blob"
  let ?fl = "filter (\<lambda>l. \<not> inert_line l) ?ls"
  from assms obtain kn s where ek: "extract_keyname ref = Inr kn"
    and sp: "set_params ?ls
           \<lparr>key = k, keyname = kn, options = None, user = None, aliases = None,
            url = None, attrs = []\<rparr> = Inr s"
    and fin: "finish s = Inr e"
    by (rule init_item_json_ok)
  show "\<exists>e'. init (item_json k ref (without_inert blob)) = Inr e'
            \<and> serialize e' path w = serialize e path w"
  proof -
    from set_params_without_inert[OF sp] obtain t where
      t: "set_params ?fl
           \<lparr>key = k, keyname = kn, options = None, user = None, aliases = None,
            url = None, attrs = []\<rparr> = Inr t"
      and ct: "core t = core s" by blast
    from finish_core[OF ct fin] obtain e' where e': "finish t = Inr e'" and ce: "core e' = core e"
      by blast
    from finish_ok[OF fin] set_params_url[OF sp] have "lines_named ''url'' ?ls \<noteq> []"
      by (auto split: if_splits)
    then have "lines_named ''url'' ?fl \<noteq> []"
      by (simp add: lines_named_without_inert not_inert_names)
    then have ne: "?fl \<noteq> []" unfolding lines_named_def by (cases ?fl) auto
    have "\<forall>x\<in>set ?fl. NL \<notin> set x" by (auto dest: split_no_sep)
    with ne have "split NL (join NL ?fl) = ?fl" by (rule split_join)
    with ek t e' have "init (item_json k ref (without_inert blob)) = Inr e'"
      by (simp add: init_item_json bind_def without_inert_def)
    with serialize_core[OF ce] show ?thesis by blast
  qed
  show "\<forall>l\<in>set ?ls. inert_line l \<longrightarrow>
           map_of (attrs e) (field_name l) = Some (field_text (last (lines_named (field_name l) ?ls)))"
  proof (intro ballI impI)
    fix l assume l: "l \<in> set ?ls" and il: "inert_line l"
    from l have "lines_named (field_name l) ?ls \<noteq> []"
      by (auto simp: lines_named_def filter_empty_conv)
    with set_params_getattr[OF sp, of "field_name l"]
    have "getattr s (field_name l) = Some (field_text (last (lines_named (field_name l) ?ls)))"
      by simp
    moreover from il have "stored (field_name l)" by (simp add: inert_line_def inert_def)
    ultimately show "map_of (attrs e) (field_name l)
        = Some (field_text (last (lines_named (field_name l) ?ls)))"
      using finish_attrs[OF fin] by (simp add: getattr_stored)
  qed
qed

theorem inert_lines_leave_serialization_witness:
  "init (item_json ''ssh-ed25519 AAAA'' ''op://Vault/Example Host/item''
          (''url example.com'' @ NL # ''note hello'' @ NL # ''user admin''))
     = Inr \<lparr>key = ''ssh-ed25519 AAAA'', keyname = Some ''Example_Host'', options = None,
            user = Some ''admin'', aliases = None, url = Some ''example.com'',
            attrs = [(''note'', ''hello'')]\<rparr>
   \<and> without_inert (''url example.com'' @ NL # ''note hello'' @ NL # ''user admin'')
     = ''url example.com'' @ NL # ''user admin''
   \<and> init (item_json ''ssh-ed25519 AAAA'' ''op://Vault/Example Host/item''
          (''url example.com'' @ NL # ''user admin''))
     = Inr \<lparr>key = ''ssh-ed25519 AAAA'', keyname = Some ''Example_Host'', options = None,
            user = Some ''admin'', aliases = None, url = Some ''example.com'', attrs = []\<rparr>
   \<and> serialize \<lparr>key = ''ssh-ed25519 AAAA'', keyname = Some ''Example_Host'', options = None,
            user = Some ''admin'', aliases = None, url = Some ''example.com'', attrs = []\<rparr>
         ''/home/me/.ssh'' \<lparr>stdout = [], stderr = [], fs = []\<rparr>
     = serialize \<lparr>key = ''ssh-ed25519 AAAA'', keyname = Some ''Example_Host'', options = None,
            user = Some ''admin'', aliases = None, url = Some ''example.com'',
            attrs = [(''note'', ''hello'')]\<rparr>
         ''/home/me/.ssh'' \<lparr>stdout = [], stderr = [], fs = []\<rparr>
   \<and> inert_line ''note hello''"
proof -
  have h: "init (item_json ''ssh-ed25519 AAAA'' ''op://Vault/Example Host/item''
          (''url example.com'' @ NL # ''note hello'' @ NL # ''user admin''))
     = Inr \<lparr>key = ''ssh-ed25519 AAAA'', keyname = Some ''Example_Host'', options = None,
            user = Some ''admin'', aliases = None, url = Some ''example.com'',
            attrs = [(''note'', ''hello'')]\<rparr>"
    by code_simp
  have b: "without_inert (''url example.com'' @ NL # ''note hello'' @ NL # ''user admin'')
     = ''url example.com'' @ NL # ''user admin''"
    by code_simp
  have i: "inert_line ''note hello''" by code_simp
  from inert_lines_leave_serialization[OF h, of "''/home/me/.ssh''" "\<lparr>stdout = [], stderr = [], fs = []\<rparr>"]
  obtain e' where "init (item_json ''ssh-ed25519 AAAA'' ''op://Vault/Example Host/item''
      (without_inert (''url example.com'' @ NL # ''note hello'' @ NL # ''user admin''))) = Inr e'"
    and "serialize e' ''/home/me/.ssh'' \<lparr>stdout = [], stderr = [], fs = []\<rparr>
      = serialize \<lparr>key = ''ssh-ed25519 AAAA'', keyname = Some ''Example_Host'', options = None,
            user = Some ''admin'', aliases = None, url = Some ''example.com'',
            attrs = [(''note'', ''hello'')]\<rparr> ''/home/me/.ssh'' \<lparr>stdout = [], stderr = [], fs = []\<rparr>"
    by blast
  moreover have "init (item_json ''ssh-ed25519 AAAA'' ''op://Vault/Example Host/item''
          (''url example.com'' @ NL # ''user admin''))
     = Inr \<lparr>key = ''ssh-ed25519 AAAA'', keyname = Some ''Example_Host'', options = None,
            user = Some ''admin'', aliases = None, url = Some ''example.com'', attrs = []\<rparr>"
    by code_simp
  ultimately show ?thesis using h b i by simp
qed

text \<open>
  C5 as stated fails: a line named \<^verbatim>\<open>keyname\<close> is none of the four recognized names,
  and it replaces the key name, so the stanza and the name of the key file change.
\<close>

theorem unrecognized_lines_change_serialization_counterexample:
  "without_unrecognized (''url example.com'' @ NL # ''keyname other'') = ''url example.com''
   \<and> init (item_json ''ssh-ed25519 AAAA'' ''op://Vault/Example Host/item'' ''url example.com'')
     = Inr \<lparr>key = ''ssh-ed25519 AAAA'', keyname = Some ''Example_Host'', options = None,
            user = None, aliases = None, url = Some ''example.com'', attrs = []\<rparr>
   \<and> init (item_json ''ssh-ed25519 AAAA'' ''op://Vault/Example Host/item''
          (''url example.com'' @ NL # ''keyname other''))
     = Inr \<lparr>key = ''ssh-ed25519 AAAA'', keyname = Some ''other'', options = None,
            user = None, aliases = None, url = Some ''example.com'', attrs = []\<rparr>
   \<and> serialize \<lparr>key = ''ssh-ed25519 AAAA'', keyname = Some ''other'', options = None,
            user = None, aliases = None, url = Some ''example.com'', attrs = []\<rparr>
         ''/home/me/.ssh'' \<lparr>stdout = [], stderr = [], fs = []\<rparr>
     \<noteq> serialize \<lparr>key = ''ssh-ed25519 AAAA'', keyname = Some ''Example_Host'', options = None,
            user = None, aliases = None, url = Some ''example.com'', attrs = []\<rparr>
         ''/home/me/.ssh'' \<lparr>stdout = [], stderr = [], fs = []\<rparr>"
  by code_simp

end
